theory Spec2Isabelle
  imports Complex_Main
begin

section \<open>The order-processing exercise of \<^verbatim>\<open>p3.py\<close>\<close>

text \<open>
  A shallow embedding of \<^verbatim>\<open>src/p3.py\<close>: the CSV parser, the inventory, the
  pricing functions, the bank account and \<^verbatim>\<open>process_order\<close>.

  Conventions of the embedding.
  \<^item> In the pricing functions and in \<^verbatim>\<open>process_order\<close> a Python \<^verbatim>\<open>float\<close>
    holding a monetary amount is an exact rational (\<^typ>\<open>rat\<close>): the literals
    \<^verbatim>\<open>0.10\<close> and \<^verbatim>\<open>0.18\<close> are \<open>1/10\<close> and \<open>18/100\<close>, and the binary rounding of
    IEEE doubles, their infinities and NaN are outside that part of the model. So the
    exact product in \<^verbatim>\<open>compute_tax\<close> can hit a tie that the double product misses
    (\<^verbatim>\<open>compute_tax(2.75)\<close> is 0.49, the rational model gives 0.50); the figures
    proved below are at amounts where both agree.
  \<^item> The methods of \<^verbatim>\<open>BankAccount\<close> are also read on the doubles with their special
    values (the type \<open>pyfloat\<close> below: finite numbers, the two infinities and NaN),
    where only the rounding of a finite result is left out.
  \<^item> A Python \<^verbatim>\<open>int\<close> is an \<^typ>\<open>int\<close>.
  \<^item> A Python \<^verbatim>\<open>str\<close> is a \<^typ>\<open>string\<close> of 7-bit ASCII characters; whitespace,
    line boundaries and letter case are those of \<^verbatim>\<open>str.isspace\<close>,
    \<^verbatim>\<open>str.splitlines\<close>, \<^verbatim>\<open>str.upper\<close> and \<^verbatim>\<open>str.lower\<close> on that range.
  \<^item> A raised exception is a value \<open>Inl e\<close> of a sum type. Only the class of the
    exception is kept, its message is dropped.
  \<^item> A method that mutates its object takes the object and returns the new one. The
    methods of \<^verbatim>\<open>Inventory\<close> and \<^verbatim>\<open>BankAccount\<close> raise before they assign, so
    \<open>Inl e\<close> also says that the object is as it was. \<^verbatim>\<open>process_order\<close> can raise
    after it has assigned, so it returns the inventory and the account next to its
    result.
\<close>

subsection \<open>Exceptions\<close>

datatype pyerror = ValueError | KeyError | TypeError | OverflowError

subsection \<open>Strings\<close>

text \<open>\<^verbatim>\<open>str.isspace\<close> on one ASCII character: TAB, LF, VT, FF, CR, FS, GS, RS, US and
  the space.\<close>

definition isspace :: "char \<Rightarrow> bool" where
  "isspace c =
     (let n = (of_char c :: nat)
      in (9 \<le> n \<and> n \<le> 13) \<or> (28 \<le> n \<and> n \<le> 31) \<or> n = 32)"

definition upper_char :: "char \<Rightarrow> char" where
  "upper_char c =
     (let n = (of_char c :: nat)
      in if 97 \<le> n \<and> n \<le> 122 then char_of (n - 32) else c)"

definition lower_char :: "char \<Rightarrow> char" where
  "lower_char c =
     (let n = (of_char c :: nat)
      in if 65 \<le> n \<and> n \<le> 90 then char_of (n + 32) else c)"

definition upper :: "string \<Rightarrow> string" where
  "upper s = map upper_char s"

definition lower :: "string \<Rightarrow> string" where
  "lower s = map lower_char s"

text \<open>\<^verbatim>\<open>s.strip()\<close>: leading and trailing whitespace removed.\<close>

definition strip :: "string \<Rightarrow> string" where
  "strip s = rev (dropWhile isspace (rev (dropWhile isspace s)))"

text \<open>\<^verbatim>\<open>s.split(sep)\<close> for a one-character separator: the pieces between the
  separators, of which there is always at least one.\<close>

fun split :: "char \<Rightarrow> string \<Rightarrow> string list" where
  "split sep [] = [[]]"
| "split sep (c # cs) =
     (if c = sep then [] # split sep cs
      else (case split sep cs of
              [] \<Rightarrow> [[c]]
            | p # ps \<Rightarrow> (c # p) # ps))"

text \<open>\<^verbatim>\<open>str.splitlines\<close>: a line ends at LF, VT, FF, CR, FS, GS or RS, a CR LF
  pair is one boundary, and there is no empty last line. \<open>cur\<close> is the line being read,
  reversed.\<close>

definition is_linebreak :: "char \<Rightarrow> bool" where
  "is_linebreak c =
     (let n = (of_char c :: nat)
      in (10 \<le> n \<and> n \<le> 13) \<or> (28 \<le> n \<and> n \<le> 30))"

fun splitlines_from :: "string \<Rightarrow> string \<Rightarrow> string list" where
  "splitlines_from cur [] = (if cur = [] then [] else [rev cur])"
| "splitlines_from cur [c] =
     (if is_linebreak c then [rev cur] else [rev (c # cur)])"
| "splitlines_from cur (c # d # cs) =
     (if is_linebreak c then
        (if (of_char c :: nat) = 13 \<and> (of_char d :: nat) = 10
         then rev cur # splitlines_from [] cs
         else rev cur # splitlines_from [] (d # cs))
      else splitlines_from (c # cur) (d # cs))"

definition splitlines :: "string \<Rightarrow> string list" where
  "splitlines text = splitlines_from [] text"

subsection \<open>Models (lines 26-44)\<close>

record Product =
  sku :: string
  name :: string
  price :: rat
  category :: string

text \<open>The fields of \<^verbatim>\<open>OrderItem\<close> are \<^verbatim>\<open>sku\<close> and \<^verbatim>\<open>qty\<close>; the first is
  \<open>item_sku\<close> here, next to the \<open>sku\<close> of a product.\<close>

record OrderItem =
  item_sku :: string
  qty :: int

record Order =
  order_id :: string
  items :: "OrderItem list"
  coupon_code :: "string option"

subsection \<open>Coupons and pricing (lines 144-178)\<close>

text \<open>\<^verbatim>\<open>if not code\<close> holds for \<^verbatim>\<open>None\<close> and for the empty string. Python's
  \<^verbatim>\<open>max(x, 0.0)\<close> is \<open>max x 0\<close>.\<close>

definition apply_coupon :: "rat \<Rightarrow> string option \<Rightarrow> rat" where
  "apply_coupon subtotal code =
     (case code of
        None \<Rightarrow> subtotal
      | Some c \<Rightarrow>
          if c = [] then subtotal
          else
            let code' = upper (strip c)
            in if code' = ''SAVE10'' then max (subtotal - (subtotal * (10 / 100))) 0
               else if code' = ''FLAT50'' then
                 (if 200 \<le> subtotal then max (subtotal - 50) 0 else subtotal)
               else subtotal)"

text \<open>\<^verbatim>\<open>round(x, ndigits)\<close> on a float rounds the value to the nearest multiple of
  \<open>10 ^ -ndigits\<close>, a tie going to the even one.\<close>

definition round_half_even :: "rat \<Rightarrow> int" where
  "round_half_even x =
     (let f = \<lfloor>x\<rfloor>; d = x - of_int f
      in if d < 1 / 2 then f
         else if 1 / 2 < d then f + 1
         else if even f then f else f + 1)"

definition py_round :: "rat \<Rightarrow> nat \<Rightarrow> rat" where
  "py_round x ndigits = of_int (round_half_even (x * 10 ^ ndigits)) / 10 ^ ndigits"

definition compute_tax :: "rat \<Rightarrow> rat \<Rightarrow> rat" where
  "compute_tax amount rate = (let tax = amount * rate in py_round tax 2)"

text \<open>The default of the parameter \<^verbatim>\<open>rate\<close>.\<close>

definition default_rate :: rat where
  "default_rate = 18 / 100"

subsection \<open>CSV parsing (lines 51-88)\<close>

text \<open>\<^verbatim>\<open>lines = [ln.strip() for ln in text.splitlines() if ln.strip()]\<close>\<close>

definition nonblank_lines :: "string \<Rightarrow> string list" where
  "nonblank_lines text = map strip (filter (\<lambda>line. strip line \<noteq> []) (splitlines text))"

text \<open>\<^verbatim>\<open>[part.strip() for part in ln.split(",")]\<close>, the parts of a row \<^verbatim>\<open>ln\<close>\<close>

definition row_parts :: "string \<Rightarrow> string list" where
  "row_parts line = map strip (split (CHR '','') line)"

text \<open>The header test of lines 71-72, on the first line: the index the data rows
  start at.\<close>

definition header_start :: "string \<Rightarrow> nat" where
  "header_start line =
     (let header = map (\<lambda>part. lower (strip part)) (split (CHR '','') line)
      in if take 3 header = [''sku'', ''name'', ''price''] then 1 else 0)"

text \<open>
  The loop of lines 74-86 over the data rows, \<open>products\<close> being the list built so far.
  The builtin \<^verbatim>\<open>float\<close> is the parameter \<open>pyfloat\<close>: on a string it returns a number
  or raises \<^verbatim>\<open>ValueError\<close>, which is \<open>None\<close> here.
\<close>

fun parse_rows :: "(string \<Rightarrow> rat option) \<Rightarrow> string list \<Rightarrow> Product list \<Rightarrow> pyerror + Product list" where
  "parse_rows pyfloat [] products = Inr products"
| "parse_rows pyfloat (line # rest) products =
     (let parts = row_parts line
      in if length parts < 3 then Inl ValueError
         else
           let sku' = parts ! 0;
               name' = parts ! 1;
               price_raw = parts ! 2;
               category' = (if length parts > 3 then parts ! 3 else ''general'')
           in (case pyfloat price_raw of
                 None \<Rightarrow> Inl ValueError
               | Some price' \<Rightarrow>
                   parse_rows pyfloat rest
                     (products @ [\<lparr>sku = sku', name = name', price = price', category = category'\<rparr>])))"

definition parse_products_csv :: "(string \<Rightarrow> rat option) \<Rightarrow> string \<Rightarrow> pyerror + Product list" where
  "parse_products_csv pyfloat text =
     (let lines = nonblank_lines text
      in if lines = [] then Inr []
         else parse_rows pyfloat (drop (header_start (hd lines)) lines) [])"

subsection \<open>Inventory (lines 95-137)\<close>

text \<open>The fields \<^verbatim>\<open>_stock\<close> and \<^verbatim>\<open>_catalog\<close>, two dictionaries keyed by SKU.\<close>

record Inventory =
  stock :: "string \<rightharpoonup> int"
  catalog :: "string \<rightharpoonup> Product"

definition Inventory_init :: Inventory where
  "Inventory_init = \<lparr>stock = Map.empty, catalog = Map.empty\<rparr>"

definition add_product :: "Inventory \<Rightarrow> Product \<Rightarrow> Inventory" where
  "add_product self product =
     (let self' = self\<lparr>catalog := (catalog self)(sku product \<mapsto> product)\<rparr>
      in if stock self' (sku product) = None
         then self'\<lparr>stock := (stock self')(sku product \<mapsto> 0)\<rparr>
         else self')"

definition get_stock :: "Inventory \<Rightarrow> string \<Rightarrow> int" where
  "get_stock self s = (case stock self s of None \<Rightarrow> 0 | Some n \<Rightarrow> n)"

definition add_stock :: "Inventory \<Rightarrow> string \<Rightarrow> int \<Rightarrow> pyerror + Inventory" where
  "add_stock self s q =
     (if q \<le> 0 then Inl ValueError
      else if catalog self s = None then Inl KeyError
      else Inr (self\<lparr>stock := (stock self)(s \<mapsto> get_stock self s + q)\<rparr>))"

definition remove_stock :: "Inventory \<Rightarrow> string \<Rightarrow> int \<Rightarrow> pyerror + Inventory" where
  "remove_stock self s q =
     (if q \<le> 0 then Inl ValueError
      else if get_stock self s < q then Inl ValueError
      else Inr (self\<lparr>stock := (stock self)(s \<mapsto> get_stock self s - q)\<rparr>))"

definition get_price :: "Inventory \<Rightarrow> string \<Rightarrow> pyerror + rat" where
  "get_price self s = (case catalog self s of None \<Rightarrow> Inl KeyError | Some p \<Rightarrow> Inr (price p))"

definition has_sku :: "Inventory \<Rightarrow> string \<Rightarrow> bool" where
  "has_sku self s = (catalog self s \<noteq> None)"

text \<open>
  A caller's use of an inventory: a sequence of method calls. A call that raises leaves
  the object as it was, and the caller may go on with it; the three readers return a
  value and assign nothing.
\<close>

datatype inv_op =
    AddProduct Product
  | AddStock string int
  | RemoveStock string int
  | GetStock string
  | GetPrice string
  | HasSku string

fun inv_step :: "Inventory \<Rightarrow> inv_op \<Rightarrow> Inventory" where
  "inv_step inven (AddProduct p) = add_product inven p"
| "inv_step inven (AddStock s q) = (case add_stock inven s q of Inl e \<Rightarrow> inven | Inr inven' \<Rightarrow> inven')"
| "inv_step inven (RemoveStock s q) = (case remove_stock inven s q of Inl e \<Rightarrow> inven | Inr inven' \<Rightarrow> inven')"
| "inv_step inven (GetStock s) = inven"
| "inv_step inven (GetPrice s) = inven"
| "inv_step inven (HasSku s) = inven"

definition inv_run :: "inv_op list \<Rightarrow> Inventory" where
  "inv_run ops = foldl inv_step Inventory_init ops"

text \<open>The invariant of the data model: no stored count is negative, and a SKU with a
  stock entry has a catalog entry.\<close>

definition inv_ok :: "Inventory \<Rightarrow> bool" where
  "inv_ok inven = (\<forall>s n. stock inven s = Some n \<longrightarrow> 0 \<le> n \<and> catalog inven s \<noteq> None)"

subsection \<open>Floats with their special values\<close>

text \<open>
  A double is a finite number, an infinity or NaN. A finite double is written
  \<open>Finite x\<close> for the rational \<open>x\<close> it holds; the rounding of a finite result to 53
  bits is not modelled, its overflow is: a result of magnitude \<open>2^1024 - 2^970\<close> or more
  is an infinity, and \<^verbatim>\<open>float(i)\<close> raises \<^verbatim>\<open>OverflowError\<close> for such an \<^verbatim>\<open>int\<close>.
\<close>

datatype pyfloat = Finite rat | PosInf | NegInf | NaN

definition float_overflow :: rat where
  "float_overflow = 2 ^ 1024 - 2 ^ 970"

definition float_result :: "rat \<Rightarrow> pyfloat" where
  "float_result x =
     (if float_overflow \<le> x then PosInf
      else if x \<le> - float_overflow then NegInf
      else Finite x)"

text \<open>The comparisons \<^verbatim>\<open><=\<close> and \<^verbatim>\<open><\<close> of IEEE 754: every comparison with NaN is
  false.\<close>

fun float_le :: "pyfloat \<Rightarrow> pyfloat \<Rightarrow> bool" where
  "float_le NaN y = False"
| "float_le x NaN = False"
| "float_le NegInf y = True"
| "float_le x PosInf = True"
| "float_le (Finite a) (Finite b) = (a \<le> b)"
| "float_le x y = False"

fun float_lt :: "pyfloat \<Rightarrow> pyfloat \<Rightarrow> bool" where
  "float_lt NaN y = False"
| "float_lt x NaN = False"
| "float_lt (Finite a) (Finite b) = (a < b)"
| "float_lt NegInf NegInf = False"
| "float_lt PosInf PosInf = False"
| "float_lt NegInf y = True"
| "float_lt x PosInf = True"
| "float_lt x y = False"

text \<open>Sum and difference: NaN gives NaN, as do \<^verbatim>\<open>inf + -inf\<close> and \<^verbatim>\<open>inf - inf\<close>.\<close>

fun float_add :: "pyfloat \<Rightarrow> pyfloat \<Rightarrow> pyfloat" where
  "float_add NaN y = NaN"
| "float_add x NaN = NaN"
| "float_add PosInf NegInf = NaN"
| "float_add NegInf PosInf = NaN"
| "float_add PosInf y = PosInf"
| "float_add x PosInf = PosInf"
| "float_add NegInf y = NegInf"
| "float_add x NegInf = NegInf"
| "float_add (Finite a) (Finite b) = float_result (a + b)"

fun float_neg :: "pyfloat \<Rightarrow> pyfloat" where
  "float_neg (Finite a) = Finite (- a)"
| "float_neg PosInf = NegInf"
| "float_neg NegInf = PosInf"
| "float_neg NaN = NaN"

instantiation pyfloat :: "{zero, ord, plus, minus}"
begin

definition zero_pyfloat :: pyfloat where
  "zero_pyfloat = Finite 0"

definition less_eq_pyfloat :: "pyfloat \<Rightarrow> pyfloat \<Rightarrow> bool" where
  "less_eq_pyfloat x y = float_le x y"

definition less_pyfloat :: "pyfloat \<Rightarrow> pyfloat \<Rightarrow> bool" where
  "less_pyfloat x y = float_lt x y"

definition plus_pyfloat :: "pyfloat \<Rightarrow> pyfloat \<Rightarrow> pyfloat" where
  "plus_pyfloat x y = float_add x y"

definition minus_pyfloat :: "pyfloat \<Rightarrow> pyfloat \<Rightarrow> pyfloat" where
  "minus_pyfloat x y = float_add x (float_neg y)"

instance ..

end

text \<open>\<^verbatim>\<open>float(i)\<close> for an \<^verbatim>\<open>int\<close>.\<close>

definition float_of_int :: "int \<Rightarrow> pyerror + pyfloat" where
  "float_of_int i =
     (if float_overflow \<le> \<bar>of_int i\<bar> then Inl OverflowError else Inr (Finite (of_int i)))"

subsection \<open>Payments (lines 185-211)\<close>

text \<open>
  The balance of an account is a number of the type \<open>'a\<close>: an exact rational where
  \<^verbatim>\<open>process_order\<close> charges a payer, a \<open>pyfloat\<close> where the account is used on its
  own.
\<close>

record 'a BankAccount =
  owner :: string
  balance :: 'a

definition BankAccount_init :: "string \<Rightarrow> rat \<Rightarrow> rat BankAccount" where
  "BankAccount_init owner' balance' = \<lparr>owner = owner', balance = balance'\<rparr>"

text \<open>
  \<^verbatim>\<open>deposit\<close> has no annotation on \<^verbatim>\<open>amount\<close> and tests its class, so its argument
  is any Python value. \<^verbatim>\<open>bool\<close> is a subclass of \<^verbatim>\<open>int\<close>:
  \<^verbatim>\<open>isinstance(True, (int, float))\<close> holds, and \<^verbatim>\<open>True\<close> counts as 1.
\<close>

datatype pyval = PyInt int | PyFloat pyfloat | PyBool bool | PyStr string | PyNone

text \<open>\<^verbatim>\<open>isinstance(amount, (int, float))\<close>\<close>

fun is_number :: "pyval \<Rightarrow> bool" where
  "is_number (PyInt i) = True"
| "is_number (PyFloat x) = True"
| "is_number (PyBool b) = True"
| "is_number (PyStr s) = False"
| "is_number PyNone = False"

text \<open>\<^verbatim>\<open>amount <= 0\<close>, for an amount that is a number (an \<^verbatim>\<open>int\<close> is compared as an
  integer).\<close>

fun not_positive :: "pyval \<Rightarrow> bool" where
  "not_positive (PyInt i) = (i \<le> 0)"
| "not_positive (PyFloat x) = (x \<le> 0)"
| "not_positive (PyBool b) = (\<not> b)"
| "not_positive (PyStr s) = False"
| "not_positive PyNone = False"

text \<open>\<^verbatim>\<open>float(amount)\<close>, for an amount that is a number.\<close>

fun to_float :: "pyval \<Rightarrow> pyerror + pyfloat" where
  "to_float (PyInt i) = float_of_int i"
| "to_float (PyFloat x) = Inr x"
| "to_float (PyBool b) = Inr (Finite (if b then 1 else 0))"
| "to_float (PyStr s) = Inl TypeError"
| "to_float PyNone = Inl TypeError"

definition deposit :: "pyfloat BankAccount \<Rightarrow> pyval \<Rightarrow> pyerror + pyfloat BankAccount" where
  "deposit acct amount =
     (if \<not> is_number amount then Inl TypeError
      else if not_positive amount then Inl ValueError
      else (case to_float amount of
              Inl e \<Rightarrow> Inl e
            | Inr a \<Rightarrow> Inr (acct\<lparr>balance := balance acct + a\<rparr>)))"

definition withdraw ::
  "('a::{zero,ord,minus}) BankAccount \<Rightarrow> 'a \<Rightarrow> pyerror + 'a BankAccount" where
  "withdraw acct amount =
     (if amount \<le> 0 then Inl ValueError
      else if amount > balance acct then Inl ValueError
      else Inr (acct\<lparr>balance := balance acct - amount\<rparr>))"

subsection \<open>Ordering (lines 218-278)\<close>

text \<open>The loop of \<^verbatim>\<open>calculate_subtotal\<close>, \<open>subtotal\<close> being the sum so far. The
  parameter \<^verbatim>\<open>inv\<close> of the source is \<open>inven\<close>, since \<open>inv\<close> is a constant of HOL.\<close>

fun subtotal_loop :: "OrderItem list \<Rightarrow> Inventory \<Rightarrow> rat \<Rightarrow> pyerror + rat" where
  "subtotal_loop [] inven subtotal = Inr subtotal"
| "subtotal_loop (it # its) inven subtotal =
     (if \<not> has_sku inven (item_sku it) then Inl KeyError
      else (case get_price inven (item_sku it) of
              Inl e \<Rightarrow> Inl e
            | Inr price' \<Rightarrow> subtotal_loop its inven (subtotal + of_int (qty it) * price')))"

definition calculate_subtotal :: "Order \<Rightarrow> Inventory \<Rightarrow> pyerror + rat" where
  "calculate_subtotal order inven = subtotal_loop (items order) inven 0"

text \<open>The dictionary \<^verbatim>\<open>process_order\<close> returns. Its keys \<^verbatim>\<open>order_id\<close>,
  \<^verbatim>\<open>items\<close> and \<^verbatim>\<open>coupon_code\<close> are prefixed here, next to the fields of an
  order.\<close>

record Receipt =
  receipt_order_id :: string
  receipt_items :: "(string \<times> int) list"
  subtotal :: rat
  discounted :: rat
  tax :: rat
  grand_total :: rat
  timestamp :: string
  receipt_coupon_code :: string

text \<open>The first loop of \<^verbatim>\<open>process_order\<close> (lines 251-255): the exception it
  raises, if any.\<close>

fun validate_items :: "OrderItem list \<Rightarrow> Inventory \<Rightarrow> pyerror option" where
  "validate_items [] inven = None"
| "validate_items (item # rest) inven =
     (if \<not> has_sku inven (item_sku item) then Some KeyError
      else if get_stock inven (item_sku item) < qty item then Some ValueError
      else validate_items rest inven)"

text \<open>The second loop (lines 265-266): the exception it raises, if any, and the
  inventory as the loop leaves it.\<close>

fun remove_items :: "OrderItem list \<Rightarrow> Inventory \<Rightarrow> pyerror option \<times> Inventory" where
  "remove_items [] inven = (None, inven)"
| "remove_items (it # its) inven =
     (case remove_stock inven (item_sku it) (qty it) of
        Inl e \<Rightarrow> (Some e, inven)
      | Inr inven' \<Rightarrow> remove_items its inven')"

text \<open>
  \<^verbatim>\<open>process_order\<close>. The clock is the parameter \<open>now\<close>, the string
  \<^verbatim>\<open>datetime.now().isoformat()\<close> returns. The result is the receipt or the
  exception, with the inventory and the account as the call leaves them.
\<close>

definition process_order ::
  "string \<Rightarrow> Order \<Rightarrow> Inventory \<Rightarrow> rat BankAccount \<Rightarrow>
     (pyerror + Receipt) \<times> Inventory \<times> rat BankAccount" where
  "process_order now order inven payer =
     (case validate_items (items order) inven of
        Some e \<Rightarrow> (Inl e, inven, payer)
      | None \<Rightarrow>
          (case calculate_subtotal order inven of
             Inl e \<Rightarrow> (Inl e, inven, payer)
           | Inr subtotal' \<Rightarrow>
               let discounted' = apply_coupon subtotal' (coupon_code order);
                   tax' = compute_tax discounted' default_rate;
                   grand_total' = discounted' + tax'
               in (case withdraw payer grand_total' of
                     Inl e \<Rightarrow> (Inl e, inven, payer)
                   | Inr payer' \<Rightarrow>
                       (case remove_items (items order) inven of
                          (Some e, inven') \<Rightarrow> (Inl e, inven', payer')
                        | (None, inven') \<Rightarrow>
                            (Inr \<lparr>receipt_order_id = order_id order,
                                  receipt_items = map (\<lambda>it. (item_sku it, qty it)) (items order),
                                  subtotal = subtotal',
                                  discounted = discounted',
                                  tax = tax',
                                  grand_total = grand_total',
                                  timestamp = now,
                                  receipt_coupon_code =
                                    (case coupon_code order of None \<Rightarrow> [] | Some c \<Rightarrow> c)\<rparr>,
                             inven', payer')))))"

subsection \<open>The demonstration of lines 285-309\<close>

definition demo_products :: "Product list" where
  "demo_products =
     [\<lparr>sku = ''SKU1'', name = ''Pen'', price = 10.5, category = ''stationery''\<rparr>,
      \<lparr>sku = ''SKU2'', name = ''Book'', price = 99.0, category = ''books''\<rparr>]"

definition demo_inventory :: Inventory where
  "demo_inventory =
     inv_run (map AddProduct demo_products @ [AddStock ''SKU1'' 10, AddStock ''SKU2'' 5])"

definition demo_order :: Order where
  "demo_order =
     \<lparr>order_id = ''ORD-001'',
      items = [\<lparr>item_sku = ''SKU1'', qty = 2\<rparr>, \<lparr>item_sku = ''SKU2'', qty = 1\<rparr>],
      coupon_code = Some ''SAVE10''\<rparr>"

section \<open>Properties\<close>

subsection \<open>Coupon codes\<close>

lemma of_char_less_256: "(of_char c :: nat) < 256"
proof -
  have "(of_char c :: nat) mod 256 < 256" by simp
  then show ?thesis by (simp only: of_char_mod_256)
qed

lemma isspace_upper_char: "isspace (upper_char c) = isspace c"
  using of_char_less_256 [of c]
  by (auto simp add: isspace_def upper_char_def Let_def)

lemma upper_char_idem: "upper_char (upper_char c) = upper_char c"
  using of_char_less_256 [of c]
  by (auto simp add: upper_char_def Let_def)

lemma upper_idem: "upper (upper s) = upper s"
  by (simp add: upper_def upper_char_idem)

lemma dropWhile_isspace_upper: "dropWhile isspace (upper s) = upper (dropWhile isspace s)"
  by (simp add: upper_def dropWhile_map comp_def isspace_upper_char)

lemma rev_upper: "rev (upper s) = upper (rev s)"
  by (simp add: upper_def rev_map)

lemma strip_upper: "strip (upper s) = upper (strip s)"
  by (simp only: strip_def dropWhile_isspace_upper rev_upper)

text \<open>Once the front and the back of a string have been trimmed, the front needs no
  second trimming.\<close>

lemma dropWhile_rev_dropWhile:
  "dropWhile P (rev (dropWhile P (rev (dropWhile P s)))) = rev (dropWhile P (rev (dropWhile P s)))"
proof -
  define t where "t = dropWhile P s"
  define u where "u = dropWhile P (rev t)"
  have "dropWhile P (rev u) = rev u"
  proof (cases "u = []")
    case True
    then show ?thesis by simp
  next
    case False
    then have t: "t \<noteq> []" by (auto simp: u_def)
    have "hd u \<in> set u" using False by simp
    then have "hd u \<in> set (rev t)" unfolding u_def by (rule set_dropWhileD)
    moreover have "\<not> P (hd u)" using False unfolding u_def by (rule hd_dropWhile)
    ultimately have "last u = last (rev t)"
      unfolding u_def by (rule dropWhile_last)
    then have "last u = hd t" using t by (simp add: last_rev)
    moreover have "\<not> P (hd t)" using t unfolding t_def by (rule hd_dropWhile)
    ultimately have "\<not> P (hd (rev u))" using False by (simp add: hd_rev)
    then show ?thesis by (simp add: dropWhile_eq_self_iff)
  qed
  then show ?thesis by (simp add: t_def u_def)
qed

lemma strip_idem: "strip (strip s) = strip s"
proof -
  have "strip (strip s) =
      rev (dropWhile isspace (rev (rev (dropWhile isspace (rev (dropWhile isspace s))))))"
    unfolding strip_def by (simp only: dropWhile_rev_dropWhile)
  also have "\<dots> = strip s"
    by (simp add: strip_def)
  finally show ?thesis .
qed

lemma normalise_idem: "upper (strip (upper (strip c))) = upper (strip c)"
  by (simp add: strip_upper strip_idem upper_idem)

lemma upper_strip_SAVE10: "upper (strip ''SAVE10'') = ''SAVE10''"
  by code_simp

lemma upper_strip_FLAT50: "upper (strip ''FLAT50'') = ''FLAT50''"
  by code_simp


lemma upper_strip_save10_padded: "upper (strip '' save10 '') = ''SAVE10''"
  by code_simp




text \<open>
  Claim C4, as the spec states it: for every subtotal and every coupon code the value
  \<^verbatim>\<open>apply_coupon\<close> returns is never negative. With no code the subtotal is returned
  as it is (line 156), so a negative subtotal gives a negative result.
\<close>

theorem apply_coupon_negative_result:
  "apply_coupon (- 1) None = - 1 \<and> apply_coupon (- 1) None < 0"
  by (simp add: apply_coupon_def)

text \<open>
  Claim C4, amended: for every subtotal and every coupon code (no code and unknown codes
  too), the value \<^verbatim>\<open>apply_coupon\<close> returns is negative only when the subtotal is
  negative, and it is then the subtotal unchanged; with a code that is SAVE10 once
  trimmed and upper-cased the value returned is never negative, whatever the subtotal;
  with no code or any other code a negative subtotal is returned unchanged; and for a
  subtotal that is not negative the value returned is never negative.
\<close>

theorem apply_coupon_negative_only_unchanged:
  "(apply_coupon s code < 0 \<longrightarrow> s < 0 \<and> apply_coupon s code = s)
   \<and> (upper (strip c) = ''SAVE10'' \<longrightarrow> 0 \<le> apply_coupon s (Some c))
   \<and> (s < 0 \<and> (\<forall>c'. code = Some c' \<longrightarrow> upper (strip c') \<noteq> ''SAVE10'')
        \<longrightarrow> apply_coupon s code = s)
   \<and> (0 \<le> s \<longrightarrow> 0 \<le> apply_coupon s code)"
  by (auto simp: apply_coupon_def Let_def upper_def strip_def split: option.splits if_splits)

theorem apply_coupon_negative_only_unchanged_witness:
  "apply_coupon (- 1) None < 0
   \<and> apply_coupon (- 1) None = - 1
   \<and> 0 \<le> apply_coupon (- 10) (Some ''SAVE10'')
   \<and> apply_coupon (- 10) (Some ''FLAT50'') = - 10
   \<and> 0 \<le> apply_coupon 30 (Some ''FLAT50'')"
proof -
  have neg: "apply_coupon (- 1) None < 0"
    by (simp add: apply_coupon_def)
  from apply_coupon_negative_only_unchanged [of "- 1" None "''SAVE10''"] neg
  have "apply_coupon (- 1) None = - 1" by simp
  moreover from apply_coupon_negative_only_unchanged [of "- 10" None "''SAVE10''"]
  have "0 \<le> apply_coupon (- 10) (Some ''SAVE10'')"
    by (simp add: upper_strip_SAVE10)
  moreover from apply_coupon_negative_only_unchanged [of "- 10" "Some ''FLAT50''" "''SAVE10''"]
  have "apply_coupon (- 10) (Some ''FLAT50'') = - 10"
    by (simp add: upper_strip_FLAT50)
  moreover from apply_coupon_negative_only_unchanged [of 30 "Some ''FLAT50''" "''SAVE10''"]
  have "0 \<le> apply_coupon 30 (Some ''FLAT50'')" by simp
  ultimately show ?thesis using neg by simp
qed

text \<open>
  Claim C10: \<^verbatim>\<open>apply_coupon\<close> is insensitive to whitespace around the code and to its
  letter case: for every subtotal and every string \<open>c\<close>, the result for \<open>c\<close> is the result
  for \<open>c\<close> trimmed and upper-cased.
\<close>

theorem apply_coupon_normalises_code:
  "apply_coupon s (Some c) = apply_coupon s (Some (upper (strip c)))"
proof (cases "upper (strip c) = []")
  case True
  then show ?thesis by (simp add: apply_coupon_def Let_def)
next
  case False
  then have "c \<noteq> []" by (auto simp: upper_def strip_def)
  with False show ?thesis
    by (simp add: apply_coupon_def Let_def normalise_idem)
qed

theorem apply_coupon_normalises_code_witness:
  "apply_coupon 200 (Some '' save10 '') = apply_coupon 200 (Some ''SAVE10'')
   \<and> apply_coupon 200 (Some '' save10 '') = 180"
proof -
  have "apply_coupon 200 (Some ''SAVE10'') = 180"
    by (simp add: apply_coupon_def Let_def upper_strip_SAVE10)
  with apply_coupon_normalises_code [of 200 "'' save10 ''"] show ?thesis
    by (simp add: upper_strip_save10_padded)
qed

subsection \<open>The inventory\<close>

lemma inv_ok_init: "inv_ok Inventory_init"
  by (simp add: inv_ok_def Inventory_init_def)

lemma inv_ok_add_product: "inv_ok inven \<Longrightarrow> inv_ok (add_product inven p)"
  by (auto simp: inv_ok_def add_product_def Let_def split: if_splits)

lemma inv_ok_add_stock: "inv_ok inven \<Longrightarrow> add_stock inven s q = Inr inven' \<Longrightarrow> inv_ok inven'"
  by (auto simp: inv_ok_def add_stock_def get_stock_def split: if_splits option.splits)

lemma inv_ok_remove_stock:
  "inv_ok inven \<Longrightarrow> remove_stock inven s q = Inr inven' \<Longrightarrow> inv_ok inven'"
  by (auto simp: inv_ok_def remove_stock_def get_stock_def split: if_splits option.splits)

lemma inv_ok_step: "inv_ok inven \<Longrightarrow> inv_ok (inv_step inven op)"
  by (cases op)
     (auto simp: inv_ok_add_product split: sum.splits
           dest: inv_ok_add_stock inv_ok_remove_stock)

lemma inv_ok_foldl: "inv_ok inven \<Longrightarrow> inv_ok (foldl inv_step inven ops)"
  by (induction ops arbitrary: inven) (simp_all add: inv_ok_step)

text \<open>
  Claim C5: after every sequence of \<^verbatim>\<open>add_product\<close>, \<^verbatim>\<open>add_stock\<close>,
  \<^verbatim>\<open>remove_stock\<close>, \<^verbatim>\<open>get_stock\<close>, \<^verbatim>\<open>get_price\<close> and \<^verbatim>\<open>has_sku\<close> calls on a
  freshly constructed inventory, whether they return or raise, every stored stock count
  is non-negative and every SKU with a stock entry has a catalog entry. The sequence is
  arbitrary, so this holds after each of its calls.
\<close>

theorem inventory_invariant: "inv_ok (inv_run ops)"
  unfolding inv_run_def by (rule inv_ok_foldl [OF inv_ok_init])

theorem inventory_invariant_witness:
  "inv_ok (inv_run [AddProduct \<lparr>sku = ''SKU1'', name = ''Pen'', price = 5, category = ''general''\<rparr>,
                    AddStock ''SKU1'' 2, AddStock ''SKU1'' 3, RemoveStock ''SKU1'' 9,
                    RemoveStock ''SKU1'' 4, RemoveStock ''GHOST'' 1, GetStock ''SKU1''])
   \<and> stock (inv_run [AddProduct \<lparr>sku = ''SKU1'', name = ''Pen'', price = 5, category = ''general''\<rparr>,
                    AddStock ''SKU1'' 2, AddStock ''SKU1'' 3, RemoveStock ''SKU1'' 9,
                    RemoveStock ''SKU1'' 4, RemoveStock ''GHOST'' 1, GetStock ''SKU1'']) ''SKU1'' = Some 1
   \<and> stock (inv_run [AddProduct \<lparr>sku = ''SKU1'', name = ''Pen'', price = 5, category = ''general''\<rparr>,
                    AddStock ''SKU1'' 2, AddStock ''SKU1'' 3, RemoveStock ''SKU1'' 9,
                    RemoveStock ''SKU1'' 4, RemoveStock ''GHOST'' 1, GetStock ''SKU1'']) ''GHOST'' = None"
  using inventory_invariant [of "[AddProduct \<lparr>sku = ''SKU1'', name = ''Pen'', price = 5, category = ''general''\<rparr>,
                    AddStock ''SKU1'' 2, AddStock ''SKU1'' 3, RemoveStock ''SKU1'' 9,
                    RemoveStock ''SKU1'' 4, RemoveStock ''GHOST'' 1, GetStock ''SKU1'']"]
  by (simp add: inv_run_def Inventory_init_def add_product_def add_stock_def remove_stock_def
        get_stock_def Let_def)

subsection \<open>The bank account\<close>

lemma float_overflow_pos: "0 < float_overflow"
  by (simp add: float_overflow_def)

text \<open>
  Claim C6: for an account whose balance is not negative, \<^verbatim>\<open>deposit\<close> raises
  \<^verbatim>\<open>TypeError\<close> on an argument that is not a number, \<^verbatim>\<open>ValueError\<close> on an amount
  that is not positive, and otherwise increases the balance; \<^verbatim>\<open>withdraw\<close> raises
  \<^verbatim>\<open>ValueError\<close> on an amount that is not positive or exceeds the balance, and
  otherwise decreases the balance; and in every case the balance after the call is not
  negative.

  The code does not keep this. The guards of lines 202, 207 and 209 are comparisons, and
  every comparison with NaN is false: on an account holding 50, \<^verbatim>\<open>withdraw(nan)\<close> and
  \<^verbatim>\<open>deposit(nan)\<close> pass them and leave the balance NaN, which is not \<open>\<ge> 0\<close>. On an
  account holding \<^verbatim>\<open>inf\<close>, \<^verbatim>\<open>withdraw(inf)\<close> passes them too and leaves
  \<^verbatim>\<open>inf - inf\<close>, NaN again. And \<^verbatim>\<open>deposit(10 ** 309)\<close> raises neither of the two
  errors of the claim but the \<^verbatim>\<open>OverflowError\<close> of \<^verbatim>\<open>float(amount)\<close> in line 204.
\<close>

theorem bank_account_nan_balance:
  "(0::pyfloat) \<le> Finite 50
   \<and> withdraw \<lparr>owner = ''Tester'', balance = Finite 50\<rparr> NaN
       = Inr \<lparr>owner = ''Tester'', balance = NaN\<rparr>
   \<and> deposit \<lparr>owner = ''Tester'', balance = Finite 50\<rparr> (PyFloat NaN)
       = Inr \<lparr>owner = ''Tester'', balance = NaN\<rparr>
   \<and> \<not> (0::pyfloat) \<le> NaN
   \<and> (0::pyfloat) \<le> PosInf
   \<and> withdraw \<lparr>owner = ''Tester'', balance = PosInf\<rparr> PosInf
       = Inr \<lparr>owner = ''Tester'', balance = NaN\<rparr>
   \<and> deposit \<lparr>owner = ''Tester'', balance = Finite 50\<rparr> (PyInt (10 ^ 309))
       = Inl OverflowError"
  by (simp add: withdraw_def deposit_def zero_pyfloat_def less_eq_pyfloat_def less_pyfloat_def
        plus_pyfloat_def minus_pyfloat_def float_of_int_def float_overflow_def)

text \<open>
  These are the only inputs on which the methods break the claim. An amount that is a
  number other than NaN, and an \<^verbatim>\<open>int\<close> in the range of the doubles, is rejected or
  booked as the claim says, and the balance stays non-negative; so does a withdrawal
  other than \<^verbatim>\<open>inf\<close> from \<^verbatim>\<open>inf\<close>.
\<close>

lemma deposit_errors:
  "deposit acct v = Inl e \<Longrightarrow>
     e = TypeError \<and> \<not> is_number v
     \<or> e = ValueError \<and> is_number v \<and> not_positive v
     \<or> e = OverflowError \<and> (\<exists>i. v = PyInt i \<and> float_overflow \<le> \<bar>of_int i\<bar>)"
  by (cases v) (auto simp: deposit_def float_of_int_def split: if_splits)

lemma deposit_keeps_nonneg:
  assumes "0 \<le> balance acct" and "v \<noteq> PyFloat NaN" and "deposit acct v = Inr acct'"
  shows "0 \<le> balance acct'"
proof (cases v)
  case (PyInt i)
  with assms float_overflow_pos show ?thesis
    by (cases "balance acct")
       (auto simp: deposit_def float_of_int_def float_result_def zero_pyfloat_def
             less_eq_pyfloat_def plus_pyfloat_def split: if_splits)
next
  case (PyFloat x)
  with assms float_overflow_pos show ?thesis
    by (cases x; cases "balance acct")
       (auto simp: deposit_def float_result_def zero_pyfloat_def
             less_eq_pyfloat_def plus_pyfloat_def split: if_splits)
next
  case (PyBool b)
  with assms float_overflow_pos show ?thesis
    by (cases "balance acct")
       (auto simp: deposit_def float_result_def zero_pyfloat_def
             less_eq_pyfloat_def plus_pyfloat_def split: if_splits)
next
  case (PyStr s)
  with assms show ?thesis by (simp add: deposit_def)
next
  case PyNone
  with assms show ?thesis by (simp add: deposit_def)
qed

lemma withdraw_keeps_nonneg:
  assumes "(0::pyfloat) \<le> balance acct" and "amount \<noteq> NaN"
    and "\<not> (amount = PosInf \<and> balance acct = PosInf)"
    and "withdraw acct amount = Inr acct'"
  shows "0 \<le> balance acct'"
  using assms float_overflow_pos
  by (cases amount; cases "balance acct")
     (auto simp: withdraw_def float_result_def zero_pyfloat_def less_eq_pyfloat_def
           less_pyfloat_def minus_pyfloat_def split: if_splits)

lemma deposit_finite:
  assumes "0 \<le> b" and "b + of_int i < float_overflow"
  shows "deposit \<lparr>owner = n, balance = Finite b\<rparr> (PyInt i) =
     (if i \<le> 0 then Inl ValueError
      else Inr \<lparr>owner = n, balance = Finite (b + of_int i)\<rparr>)"
    and "deposit \<lparr>owner = n, balance = Finite b\<rparr> (PyStr t) = Inl TypeError"
  using assms
  by (auto simp: deposit_def float_of_int_def float_result_def plus_pyfloat_def)

lemma withdraw_finite:
  assumes "0 \<le> b" and "b < float_overflow"
  shows "withdraw \<lparr>owner = n, balance = Finite b\<rparr> (Finite a) =
     (if a \<le> 0 \<or> b < a then Inl ValueError
      else Inr \<lparr>owner = n, balance = Finite (b - a)\<rparr>)"
  using assms
  by (auto simp: withdraw_def float_result_def zero_pyfloat_def less_eq_pyfloat_def
        less_pyfloat_def minus_pyfloat_def)

subsection \<open>Processing an order\<close>

lemma demo_catalog:
  "catalog demo_inventory ''SKU1'' =
     Some \<lparr>sku = ''SKU1'', name = ''Pen'', price = 10.5, category = ''stationery''\<rparr>"
  "catalog demo_inventory ''SKU2'' =
     Some \<lparr>sku = ''SKU2'', name = ''Book'', price = 99.0, category = ''books''\<rparr>"
  "catalog demo_inventory ''UNKNOWN'' = None"
  by (simp_all add: demo_inventory_def demo_products_def inv_run_def Inventory_init_def
        add_product_def add_stock_def get_stock_def Let_def)

lemma demo_stock:
  "stock demo_inventory ''SKU1'' = Some 10"
  "stock demo_inventory ''SKU2'' = Some 5"
  by (simp_all add: demo_inventory_def demo_products_def inv_run_def Inventory_init_def
        add_product_def add_stock_def get_stock_def Let_def)

lemma tax_108: "compute_tax 108 default_rate = 19.44"
  by (simp add: compute_tax_def default_rate_def py_round_def round_half_even_def)

lemma demo_subtotal: "calculate_subtotal demo_order demo_inventory = Inr 120"
  by (simp add: calculate_subtotal_def demo_order_def has_sku_def get_price_def demo_catalog)

text \<open>
  Claim C1: on the inventory with SKU1 priced 10.5 and SKU2 priced 99.0, holding 10 of
  SKU1 and 5 of SKU2, for every payer whose balance is at least 127.44, the order of
  2 of SKU1 and 1 of SKU2 with the coupon SAVE10 succeeds, and its receipt has subtotal
  120, discounted total 108, tax 19.44 and grand total 127.44. The payer is charged the
  grand total and the stock goes down to 8 and 4.
\<close>

theorem demo_order_receipt:
  assumes "127.44 \<le> balance payer"
  shows "\<exists>inven'. process_order now demo_order demo_inventory payer =
           (Inr \<lparr>receipt_order_id = ''ORD-001'',
                 receipt_items = [(''SKU1'', 2), (''SKU2'', 1)],
                 subtotal = 120, discounted = 108, tax = 19.44, grand_total = 127.44,
                 timestamp = now, receipt_coupon_code = ''SAVE10''\<rparr>,
            inven', payer\<lparr>balance := balance payer - 127.44\<rparr>)
          \<and> get_stock inven' ''SKU1'' = 8 \<and> get_stock inven' ''SKU2'' = 4"
  using assms
  by (simp add: process_order_def demo_order_def calculate_subtotal_def has_sku_def get_stock_def
        get_price_def demo_catalog demo_stock apply_coupon_def Let_def tax_108 upper_strip_SAVE10
        withdraw_def remove_stock_def)

theorem demo_order_receipt_witness:
  "127.44 \<le> balance (BankAccount_init ''Shaik'' 500)
   \<and> (\<exists>inven'. process_order ''2026-01-01T00:00:00'' demo_order demo_inventory
                   (BankAccount_init ''Shaik'' 500) =
           (Inr \<lparr>receipt_order_id = ''ORD-001'',
                 receipt_items = [(''SKU1'', 2), (''SKU2'', 1)],
                 subtotal = 120, discounted = 108, tax = 19.44, grand_total = 127.44,
                 timestamp = ''2026-01-01T00:00:00'', receipt_coupon_code = ''SAVE10''\<rparr>,
            inven', BankAccount_init ''Shaik'' 372.56)
          \<and> get_stock inven' ''SKU1'' = 8 \<and> get_stock inven' ''SKU2'' = 4)"
proof -
  have h: "127.44 \<le> balance (BankAccount_init ''Shaik'' 500)"
    by (simp add: BankAccount_init_def)
  show ?thesis
    using h demo_order_receipt [OF h, of "''2026-01-01T00:00:00''"]
    by (simp add: BankAccount_init_def)
qed

text \<open>An order that names SKU1 twice, 6 and 6 of the 10 in stock: each item passes the
  check of lines 251-255, the payer is charged, the first 6 are removed, and the second
  \<^verbatim>\<open>remove_stock\<close> raises.\<close>

lemma double_item_order:
  "process_order now
     \<lparr>order_id = ''ORD-002'',
      items = [\<lparr>item_sku = ''SKU1'', qty = 6\<rparr>, \<lparr>item_sku = ''SKU1'', qty = 6\<rparr>],
      coupon_code = None\<rparr>
     demo_inventory (BankAccount_init ''Shaik'' 500)
   = (Inl ValueError,
      demo_inventory\<lparr>stock := (stock demo_inventory)(''SKU1'' \<mapsto> 4)\<rparr>,
      BankAccount_init ''Shaik'' 351.32)"
  by (simp add: process_order_def calculate_subtotal_def has_sku_def get_stock_def
        get_price_def demo_catalog demo_stock apply_coupon_def Let_def
        compute_tax_def default_rate_def py_round_def round_half_even_def
        withdraw_def remove_stock_def BankAccount_init_def)

text \<open>
  Claim C2: there are an order, an inventory and a payer for which \<^verbatim>\<open>process_order\<close>
  raises, and the payer's balance and a stock count have already been changed when it
  does: the call is not atomic.
\<close>

theorem process_order_partial_mutation:
  "\<exists>order inven payer e inven' payer'.
     process_order now order inven payer = (Inl e, inven', payer')
     \<and> balance payer' < balance payer
     \<and> get_stock inven' ''SKU1'' < get_stock inven ''SKU1''"
proof -
  let ?inven' = "demo_inventory\<lparr>stock := (stock demo_inventory)(''SKU1'' \<mapsto> 4)\<rparr>"
  have "balance (BankAccount_init ''Shaik'' 351.32) < balance (BankAccount_init ''Shaik'' 500)"
    by (simp add: BankAccount_init_def)
  moreover have "get_stock ?inven' ''SKU1'' < get_stock demo_inventory ''SKU1''"
    by (simp add: get_stock_def demo_stock)
  ultimately show ?thesis
    using double_item_order [of now] by blast
qed

lemma validate_items_first_unknown:
  assumes "\<forall>p \<in> set pre. has_sku inven (item_sku p) \<and> qty p \<le> get_stock inven (item_sku p)"
    and "\<not> has_sku inven (item_sku it)"
  shows "validate_items (pre @ it # post) inven = Some KeyError"
  using assms by (induction pre) auto

lemma validate_items_all_known:
  assumes "\<forall>it \<in> set its. has_sku inven (item_sku it)"
    and "\<exists>it \<in> set its. get_stock inven (item_sku it) < qty it"
  shows "validate_items its inven = Some ValueError"
  using assms by (induction its) auto

lemma validate_items_some_unknown:
  assumes "\<exists>it \<in> set its. \<not> has_sku inven (item_sku it)"
  shows "validate_items its inven = Some KeyError \<or> validate_items its inven = Some ValueError"
  using assms by (induction its) auto

lemma process_order_validation_error:
  "validate_items (items order) inven = Some e \<Longrightarrow>
   process_order now order inven payer = (Inl e, inven, payer)"
  by (simp add: process_order_def)

text \<open>
  Claim C7, as the spec states it: if some item's SKU is absent from the catalog,
  \<^verbatim>\<open>process_order\<close> fails with a lookup error. The loop of lines 251-255 checks SKU
  and stock item by item, so an item that asks for more than its stock, standing before
  the unknown one, raises \<^verbatim>\<open>ValueError\<close> first: here 20 of SKU1 (10 in stock), then
  1 of UNKNOWN.
\<close>

theorem process_order_unknown_sku_value_error:
  "\<not> has_sku demo_inventory ''UNKNOWN''
   \<and> process_order ''2026-01-01T00:00:00''
        \<lparr>order_id = ''ORD-003'',
         items = [\<lparr>item_sku = ''SKU1'', qty = 20\<rparr>, \<lparr>item_sku = ''UNKNOWN'', qty = 1\<rparr>],
         coupon_code = None\<rparr>
        demo_inventory (BankAccount_init ''Tester'' 100)
     = (Inl ValueError, demo_inventory, BankAccount_init ''Tester'' 100)
   \<and> KeyError \<noteq> ValueError"
  by (simp add: process_order_def has_sku_def get_stock_def demo_catalog demo_stock)

text \<open>
  Claim C7, amended: if some item's SKU is absent from the catalog and every item before
  the first such item is known and asks for no more than its stock, \<^verbatim>\<open>process_order\<close>
  fails with a lookup error (\<^verbatim>\<open>KeyError\<close>); if some item's SKU is absent, it fails with
  a lookup error or a value error; and if every SKU is known but some item asks for more
  than its stock, it fails with a value error. In each case the inventory and the payer
  are as they were.
\<close>

theorem process_order_rejects:
  "((\<exists>pre it post. items order = pre @ it # post
        \<and> (\<forall>p \<in> set pre. has_sku inven (item_sku p) \<and> qty p \<le> get_stock inven (item_sku p))
        \<and> \<not> has_sku inven (item_sku it))
      \<longrightarrow> process_order now order inven payer = (Inl KeyError, inven, payer))
   \<and> ((\<exists>it \<in> set (items order). \<not> has_sku inven (item_sku it))
      \<longrightarrow> process_order now order inven payer = (Inl KeyError, inven, payer)
        \<or> process_order now order inven payer = (Inl ValueError, inven, payer))
   \<and> ((\<forall>it \<in> set (items order). has_sku inven (item_sku it))
        \<and> (\<exists>it \<in> set (items order). get_stock inven (item_sku it) < qty it)
      \<longrightarrow> process_order now order inven payer = (Inl ValueError, inven, payer))"
proof (intro conjI impI)
  assume "\<exists>pre it post. items order = pre @ it # post
        \<and> (\<forall>p \<in> set pre. has_sku inven (item_sku p) \<and> qty p \<le> get_stock inven (item_sku p))
        \<and> \<not> has_sku inven (item_sku it)"
  then have "validate_items (items order) inven = Some KeyError"
    using validate_items_first_unknown by metis
  then show "process_order now order inven payer = (Inl KeyError, inven, payer)"
    by (rule process_order_validation_error)
next
  assume "\<exists>it \<in> set (items order). \<not> has_sku inven (item_sku it)"
  then have "validate_items (items order) inven = Some KeyError
      \<or> validate_items (items order) inven = Some ValueError"
    by (rule validate_items_some_unknown)
  then show "process_order now order inven payer = (Inl KeyError, inven, payer)
        \<or> process_order now order inven payer = (Inl ValueError, inven, payer)"
    using process_order_validation_error by blast
next
  assume "(\<forall>it \<in> set (items order). has_sku inven (item_sku it))
        \<and> (\<exists>it \<in> set (items order). get_stock inven (item_sku it) < qty it)"
  then have "validate_items (items order) inven = Some ValueError"
    using validate_items_all_known by blast
  then show "process_order now order inven payer = (Inl ValueError, inven, payer)"
    by (rule process_order_validation_error)
qed

theorem process_order_rejects_witness:
  "process_order ''2026-01-01T00:00:00''
      \<lparr>order_id = ''ORD-SKUS'',
       items = [\<lparr>item_sku = ''SKU1'', qty = 1\<rparr>, \<lparr>item_sku = ''UNKNOWN'', qty = 1\<rparr>],
       coupon_code = None\<rparr>
      demo_inventory (BankAccount_init ''Tester'' 100)
    = (Inl KeyError, demo_inventory, BankAccount_init ''Tester'' 100)
   \<and> process_order ''2026-01-01T00:00:00''
      \<lparr>order_id = ''ORD-STOCK'',
       items = [\<lparr>item_sku = ''SKU1'', qty = 1\<rparr>, \<lparr>item_sku = ''SKU2'', qty = 20\<rparr>],
       coupon_code = None\<rparr>
      demo_inventory (BankAccount_init ''Tester'' 0)
    = (Inl ValueError, demo_inventory, BankAccount_init ''Tester'' 0)"
proof -
  let ?A = "\<lparr>order_id = ''ORD-SKUS'',
       items = [\<lparr>item_sku = ''SKU1'', qty = 1\<rparr>, \<lparr>item_sku = ''UNKNOWN'', qty = 1\<rparr>],
       coupon_code = None\<rparr>"
  let ?B = "\<lparr>order_id = ''ORD-STOCK'',
       items = [\<lparr>item_sku = ''SKU1'', qty = 1\<rparr>, \<lparr>item_sku = ''SKU2'', qty = 20\<rparr>],
       coupon_code = None\<rparr>"
  have "items ?A = [\<lparr>item_sku = ''SKU1'', qty = 1\<rparr>] @ \<lparr>item_sku = ''UNKNOWN'', qty = 1\<rparr> # []
      \<and> (\<forall>p \<in> set [\<lparr>item_sku = ''SKU1'', qty = 1\<rparr>].
            has_sku demo_inventory (item_sku p) \<and> qty p \<le> get_stock demo_inventory (item_sku p))
      \<and> \<not> has_sku demo_inventory (item_sku \<lparr>item_sku = ''UNKNOWN'', qty = 1\<rparr>)"
    by (simp add: has_sku_def get_stock_def demo_catalog demo_stock)
  then have a: "\<exists>pre it post. items ?A = pre @ it # post
      \<and> (\<forall>p \<in> set pre.
            has_sku demo_inventory (item_sku p) \<and> qty p \<le> get_stock demo_inventory (item_sku p))
      \<and> \<not> has_sku demo_inventory (item_sku it)"
    by blast
  have b: "(\<forall>it \<in> set (items ?B). has_sku demo_inventory (item_sku it))
      \<and> (\<exists>it \<in> set (items ?B). get_stock demo_inventory (item_sku it) < qty it)"
    by (simp add: has_sku_def get_stock_def demo_catalog demo_stock)
  from a process_order_rejects [where order = ?A and inven = demo_inventory
      and now = "''2026-01-01T00:00:00''" and payer = "BankAccount_init ''Tester'' 100"]
  have "process_order ''2026-01-01T00:00:00'' ?A demo_inventory (BankAccount_init ''Tester'' 100)
      = (Inl KeyError, demo_inventory, BankAccount_init ''Tester'' 100)"
    by blast
  moreover from b process_order_rejects [where order = ?B and inven = demo_inventory
      and now = "''2026-01-01T00:00:00''" and payer = "BankAccount_init ''Tester'' 0"]
  have "process_order ''2026-01-01T00:00:00'' ?B demo_inventory (BankAccount_init ''Tester'' 0)
      = (Inl ValueError, demo_inventory, BankAccount_init ''Tester'' 0)"
    by blast
  ultimately show ?thesis by (rule conjI)
qed

text \<open>
  Claim C9: if \<^verbatim>\<open>process_order\<close> raises in the checks of lines 251-255, in
  \<^verbatim>\<open>calculate_subtotal\<close>, or in \<^verbatim>\<open>withdraw\<close> (a total that is not positive,
  insufficient funds), then the inventory and the payer are exactly as they were before
  the call: nothing is assigned before the withdrawal has succeeded. (The pricing
  functions \<^verbatim>\<open>apply_coupon\<close> and \<^verbatim>\<open>compute_tax\<close> do not raise.)
\<close>

theorem process_order_no_mutation_before_charge:
  assumes "validate_items (items order) inven \<noteq> None
     \<or> (\<exists>e. calculate_subtotal order inven = Inl e)
     \<or> (\<exists>s e. calculate_subtotal order inven = Inr s
           \<and> withdraw payer
                (let d = apply_coupon s (coupon_code order) in d + compute_tax d default_rate)
              = Inl e)"
  shows "\<exists>e. process_order now order inven payer = (Inl e, inven, payer)"
  using assms
  by (auto simp: process_order_def Let_def split: option.splits sum.splits)

theorem process_order_no_mutation_before_charge_witness:
  "calculate_subtotal demo_order demo_inventory = Inr 120
   \<and> withdraw (BankAccount_init ''Tester'' 100) 127.44 = Inl ValueError
   \<and> (\<exists>e. process_order ''2026-01-01T00:00:00'' demo_order demo_inventory
              (BankAccount_init ''Tester'' 100)
            = (Inl e, demo_inventory, BankAccount_init ''Tester'' 100))"
proof -
  have w: "withdraw (BankAccount_init ''Tester'' 100) 127.44 = Inl ValueError"
    by (simp add: withdraw_def BankAccount_init_def)
  have d: "(let d = apply_coupon 120 (coupon_code demo_order)
            in d + compute_tax d default_rate) = 127.44"
    by (simp add: demo_order_def apply_coupon_def Let_def upper_strip_SAVE10 tax_108)
  have "withdraw (BankAccount_init ''Tester'' 100)
          (let d = apply_coupon 120 (coupon_code demo_order)
           in d + compute_tax d default_rate)
        = Inl ValueError"
    unfolding d by (rule w)
  with demo_subtotal
  have "validate_items (items demo_order) demo_inventory \<noteq> None
     \<or> (\<exists>e. calculate_subtotal demo_order demo_inventory = Inl e)
     \<or> (\<exists>s e. calculate_subtotal demo_order demo_inventory = Inr s
           \<and> withdraw (BankAccount_init ''Tester'' 100)
                (let d = apply_coupon s (coupon_code demo_order)
                 in d + compute_tax d default_rate)
              = Inl e)"
    by blast
  from process_order_no_mutation_before_charge [OF this, of "''2026-01-01T00:00:00''"]
    demo_subtotal w show ?thesis by simp
qed

subsection \<open>Parsing the product list\<close>

text \<open>The text of the demonstration parses to its two products, for a \<^verbatim>\<open>float\<close> that
  reads the two prices; blank text parses to the empty list.\<close>

lemma parse_products_csv_demo:
  "parse_products_csv
     (\<lambda>s. if s = ''10.5'' then Some 10.5 else if s = ''99.0'' then Some 99.0 else None)
     ''sku,name,price,category\<newline>SKU1,Pen,10.5,stationery\<newline>SKU2,Book,99.0,books\<newline>''
   = Inr demo_products"
  by code_simp

lemma parse_products_csv_blank: "parse_products_csv pyfloat ''   \<newline>'' = Inr []"
  by code_simp

lemma parse_rows_short_row:
  assumes "\<exists>row \<in> set rows. length (row_parts row) < 3"
  shows "parse_rows pyfloat rows products = Inl ValueError"
  using assms
proof (induction rows arbitrary: products)
  case Nil
  then show ?case by simp
next
  case (Cons row rows)
  show ?case
  proof (cases "length (row_parts row) < 3")
    case True
    then show ?thesis by simp
  next
    case False
    with Cons.prems have "\<exists>r \<in> set rows. length (row_parts r) < 3" by auto
    then have "\<And>ps. parse_rows pyfloat rows ps = Inl ValueError" by (rule Cons.IH)
    with False show ?thesis by (simp add: Let_def split: option.splits)
  qed
qed

lemma two_column_lines:
  "nonblank_lines ''sku,name,price\<newline>SKU1,Pen,10.5\<newline>\<newline>BADSKU,OnlyTwoFields\<newline>''
     = [''sku,name,price'', ''SKU1,Pen,10.5'', ''BADSKU,OnlyTwoFields'']"
  by code_simp

lemma two_column_header: "header_start ''sku,name,price'' = 1"
  by code_simp

lemma two_column_parts: "row_parts ''BADSKU,OnlyTwoFields'' = [''BADSKU'', ''OnlyTwoFields'']"
  by code_simp

text \<open>
  Claim C8: if some data row of the text, that is some non-blank line after the header
  line (when there is one), has fewer than three comma-separated fields, then
  \<^verbatim>\<open>parse_products_csv\<close> fails with a value error, whatever \<^verbatim>\<open>float\<close> does on the
  prices of the rows before it (it returns a number or raises a value error itself).
\<close>

theorem parse_products_csv_short_row:
  assumes "\<exists>row \<in> set (drop (header_start (hd (nonblank_lines text))) (nonblank_lines text)).
             length (row_parts row) < 3"
  shows "parse_products_csv pyfloat text = Inl ValueError"
proof -
  from assms have "nonblank_lines text \<noteq> []" by auto
  with assms show ?thesis
    by (simp add: parse_products_csv_def Let_def parse_rows_short_row)
qed

theorem parse_products_csv_short_row_witness:
  "parse_products_csv (\<lambda>s. if s = ''10.5'' then Some 10.5 else None)
     ''sku,name,price\<newline>SKU1,Pen,10.5\<newline>\<newline>BADSKU,OnlyTwoFields\<newline>''
   = Inl ValueError
   \<and> length (row_parts ''BADSKU,OnlyTwoFields'') = 2"
proof -
  have "\<exists>row \<in> set (drop (header_start (hd (nonblank_lines
            ''sku,name,price\<newline>SKU1,Pen,10.5\<newline>\<newline>BADSKU,OnlyTwoFields\<newline>'')))
          (nonblank_lines ''sku,name,price\<newline>SKU1,Pen,10.5\<newline>\<newline>BADSKU,OnlyTwoFields\<newline>'')).
          length (row_parts row) < 3"
    by (simp add: two_column_lines two_column_header two_column_parts)
  from parse_products_csv_short_row [OF this] show ?thesis
    by (simp add: two_column_parts)
qed

end
